theory Spec2Isabelle
  imports Main "HOL-Library.Word"
begin

section \<open>The video player session of video\_player\_windows\<close>

text \<open>
  A shallow embedding of \<^verbatim>\<open>windows/video_player.cpp\<close>: the class \<^verbatim>\<open>VideoPlayer\<close>,
  its four media-engine callbacks, the event-sink handlers installed by \<^verbatim>\<open>Init\<close>,
  the frame request \<^verbatim>\<open>ObtainDescriptorCallback\<close> and the transport pass-throughs.
  Every member function becomes a function from the player's state to the new state.
  Locks (\<^verbatim>\<open>m_buffer_mutex\<close>, \<^verbatim>\<open>m_compositionLock\<close>) and \<^verbatim>\<open>RunSyncInMTA\<close> only order the
  calls and are not modelled: each member function runs from start to end. The
  constructors (source resolution, platform start-up) and the two setters that forward a
  floating-point value to the engine (\<^verbatim>\<open>SetVolume\<close>, \<^verbatim>\<open>SetPlaybackSpeed\<close>) are left out.
\<close>

subsection \<open>Values sent to the event sink\<close>

text \<open>
  \<^verbatim>\<open>flutter::EncodableValue\<close>, restricted to the alternatives the player builds. An
  \<^verbatim>\<open>EncodableMap\<close> is kept as the list of its entries in the order the source writes them;
  an \<^verbatim>\<open>int64_t\<close> or \<^verbatim>\<open>int32_t\<close> is the word of its bits.
\<close>

datatype EncodableValue =
    EString string
  | EInt32 "32 word"
  | EInt64 "64 word"
  | EList "EncodableValue list"
  | EMap "(EncodableValue \<times> EncodableValue) list"

text \<open>The value stored under the key \<^verbatim>\<open>"event"\<close>, the discriminator of an event.\<close>

fun event_name :: "EncodableValue \<Rightarrow> string option" where
  "event_name (EMap kvs) =
     (case map_of kvs (EString ''event'') of
        Some (EString n) \<Rightarrow> Some n
      | _ \<Rightarrow> None)"
| "event_name _ = None"

definition count_event :: "string \<Rightarrow> EncodableValue list \<Rightarrow> nat" where
  "count_event n evs = length (filter (\<lambda>e. event_name e = Some n) evs)"

subsection \<open>The media engine wrapper\<close>

text \<open>
  \<^verbatim>\<open>media::MediaEngineWrapper\<close> is an external collaborator: the player only calls it.
  It is a parameter of the model: a state type \<open>'e\<close> and one function per member the
  player calls. Commands return the new engine state, queries read it.
  \<open>eUpdateSurfaceDescriptor w h d e\<close> returns how often it invoked the frame-available
  callback, the descriptor it wrote and the new engine state. Times, durations and
  buffered ranges are 64-bit, native video sizes and surface sizes 32-bit.
\<close>

record ('e, 'd) MediaEngineWrapper =
  eSeekTo :: "64 word \<Rightarrow> 'e \<Rightarrow> 'e"
  ePause :: "'e \<Rightarrow> 'e"
  eStartPlayingFrom :: "64 word \<Rightarrow> 'e \<Rightarrow> 'e"
  eSetLooping :: "bool \<Rightarrow> 'e \<Rightarrow> 'e"
  eGetMediaTime :: "'e \<Rightarrow> 64 word"
  eGetDuration :: "'e \<Rightarrow> 64 word"
  eGetNativeVideoSize :: "'e \<Rightarrow> 32 word \<times> 32 word"
  eGetBufferedRanges :: "'e \<Rightarrow> (64 word \<times> 64 word) list"
  eUpdateSurfaceDescriptor :: "32 word \<Rightarrow> 32 word \<Rightarrow> 'd \<Rightarrow> 'e \<Rightarrow> nat \<times> 'd \<times> 'e"
  eOnWindowUpdate :: "32 word \<Rightarrow> 32 word \<Rightarrow> 'e \<Rightarrow> 'e"

text \<open>
  Modelled from the spec: the enumeration \<^verbatim>\<open>MediaEngineWrapper::BufferingState\<close> is
  declared in the wrapper's header, which is not among the sources. The spec names the
  states "no data available" (\<^verbatim>\<open>HAVE_NOTHING\<close>) and \<^verbatim>\<open>HAVE_ENOUGH\<close>; the player only
  compares with \<^verbatim>\<open>HAVE_NOTHING\<close>.
\<close>

datatype BufferingState = HAVE_NOTHING | HAVE_ENOUGH

subsection \<open>Window geometry\<close>

text \<open>The Win32 \<^verbatim>\<open>RECT\<close>: four \<^verbatim>\<open>LONG\<close> fields, 32-bit two's complement.\<close>

record RECT =
  rect_left :: "32 word"
  rect_top :: "32 word"
  rect_right :: "32 word"
  rect_bottom :: "32 word"

text \<open>
  \<^verbatim>\<open>m_windowSize\<close> is a pair of \<^verbatim>\<open>float\<close>s. Every value it ever holds is the conversion of
  a 32-bit \<^verbatim>\<open>int\<close>, hence an integer, and the model stores that integer.
  \<open>float_of_int32\<close> is \<^verbatim>\<open>static_cast<float>(int)\<close>: exact below \<open>2^24\<close>, and above it rounded
  to the nearest multiple of the unit in the last place of a 24-bit significand, ties to
  the even significand. \<open>float_ulp a\<close> is that unit for the magnitude \<open>a\<close>.
\<close>

function float_ulp :: "int \<Rightarrow> int" where
  "float_ulp a = (if a < 16777216 then 1 else 2 * float_ulp (a div 2))"
  by pat_completeness auto
termination
  by (relation "measure nat") auto

declare float_ulp.simps [simp del]

definition float_of_int32 :: "int \<Rightarrow> int" where
  "float_of_int32 x =
     (let a = \<bar>x\<bar>; u = float_ulp a; q = a div u; r = a mod u;
          q' = (if u < 2 * r \<or> (2 * r = u \<and> odd q) then q + 1 else q)
      in sgn x * (q' * u))"

text \<open>
  \<^verbatim>\<open>static_cast<uint32_t>(float)\<close> on an integer-valued float. From 0 up to \<open>2^32 - 1\<close> it
  is that integer. A negative float has no defined conversion in C++; the model keeps
  the low 32 bits, which is what the x64 code of the compiler computes.
\<close>

definition uint32_of_float :: "int \<Rightarrow> 32 word" where
  "uint32_of_float v = word_of_int v"

subsection \<open>The player\<close>

text \<open>
  The data members the member functions read or write. \<open>eventChannel\<close> and
  \<open>eventSink\<close> say whether \<^verbatim>\<open>_eventChannel\<close> and \<^verbatim>\<open>_eventSink\<close> are non-null; \<open>engine\<close> is
  the state of the object behind \<^verbatim>\<open>m_mediaEngineWrapper\<close>, which the constructor always
  creates. Two fields record what the player hands to its collaborators:
  \<open>delivered\<close>, the arguments of \<^verbatim>\<open>_eventSink->Success\<close>, oldest first, and
  \<open>framesAvailable\<close>, the arguments of \<^verbatim>\<open>MarkTextureFrameAvailable\<close>.
\<close>

record ('e, 'd) VideoPlayer =
  m_valid :: bool
  isInitialized :: bool
  eventChannel :: bool
  eventSink :: bool
  textureId :: "64 word"
  m_windowSize :: "int \<times> int"
  m_descriptor :: 'd
  engine :: 'e
  delivered :: "EncodableValue list"
  framesAvailable :: "64 word list"

text \<open>\<^verbatim>\<open>_eventSink->Success(v)\<close> behind its null check \<^verbatim>\<open>if (_eventSink)\<close>.\<close>

definition Success :: "EncodableValue \<Rightarrow> ('e, 'd) VideoPlayer \<Rightarrow> ('e, 'd) VideoPlayer" where
  "Success v s = (if eventSink s then s\<lparr>delivered := delivered s @ [v]\<rparr> else s)"

text \<open>The two handlers \<^verbatim>\<open>Init\<close> installs on the event channel: listen and cancel.\<close>

definition OnListen :: "('e, 'd) VideoPlayer \<Rightarrow> ('e, 'd) VideoPlayer" where
  "OnListen s = s\<lparr>eventSink := True\<rparr>"

definition OnCancel :: "('e, 'd) VideoPlayer \<Rightarrow> ('e, 'd) VideoPlayer" where
  "OnCancel s = s\<lparr>eventSink := False\<rparr>"

text \<open>
  \<^verbatim>\<open>Init\<close> stores the texture id and creates the event channel with the two handlers
  above.
\<close>

definition Init :: "64 word \<Rightarrow> ('e, 'd) VideoPlayer \<Rightarrow> ('e, 'd) VideoPlayer" where
  "Init textureId' s = s\<lparr>textureId := textureId', eventChannel := True\<rparr>"

text \<open>
  \<^verbatim>\<open>IsValid\<close> reads \<open>m_valid\<close>. The only assignment to \<open>m_valid\<close> is in the destructor,
  which ends the lifetime of the object: no call on the player is defined after it, so
  the destructor is not a call of the model and \<open>m_valid\<close> never changes in it.
\<close>

definition IsValid :: "('e, 'd) VideoPlayer \<Rightarrow> bool" where
  "IsValid s = m_valid s"

definition SendInitialized ::
  "('e, 'd) MediaEngineWrapper \<Rightarrow> ('e, 'd) VideoPlayer \<Rightarrow> ('e, 'd) VideoPlayer" where
  "SendInitialized ops s =
     (if isInitialized s then
        (let event = [(EString ''event'', EString ''initialized''),
                      (EString ''duration'', EInt64 (eGetDuration ops (engine s)))];
             (width, height) = eGetNativeVideoSize ops (engine s);
             event = event @ [(EString ''width'', EInt32 width)];
             event = event @ [(EString ''height'', EInt32 height)]
         in Success (EMap event) s)
      else s)"

definition OnMediaInitialized ::
  "('e, 'd) MediaEngineWrapper \<Rightarrow> ('e, 'd) VideoPlayer \<Rightarrow> ('e, 'd) VideoPlayer" where
  "OnMediaInitialized ops s =
     (let s = s\<lparr>engine := eSeekTo ops 0 (engine s)\<rparr>
      in if \<not> isInitialized s
         then SendInitialized ops (s\<lparr>isInitialized := True\<rparr>)
         else s)"

text \<open>\<^verbatim>\<open>OnMediaError\<close> writes a log line and touches nothing else.\<close>

definition OnMediaError ::
  "32 word \<Rightarrow> 32 word \<Rightarrow> ('e, 'd) VideoPlayer \<Rightarrow> ('e, 'd) VideoPlayer" where
  "OnMediaError error hr s = s"

definition SetBuffering :: "bool \<Rightarrow> ('e, 'd) VideoPlayer \<Rightarrow> ('e, 'd) VideoPlayer" where
  "SetBuffering buffering s =
     Success (EMap [(EString ''event'',
                     EString (if buffering then ''bufferingStart'' else ''bufferingEnd''))]) s"

text \<open>
  The loop of \<^verbatim>\<open>SendBufferingUpdate\<close>, with its index \<open>i\<close> and the list \<open>values\<close> it
  appends to. The source counts with a \<^verbatim>\<open>uint32_t\<close>, which is the natural number \<open>i\<close>
  as long as the engine reports fewer than \<open>2^32\<close> ranges.
\<close>

function buffering_values ::
  "nat \<Rightarrow> (64 word \<times> 64 word) list \<Rightarrow> EncodableValue list \<Rightarrow> EncodableValue list" where
  "buffering_values i ranges values =
     (if i < length ranges then
        (let (start, end') = ranges ! i
         in buffering_values (i + 1) ranges (values @ [EList [EInt64 start, EInt64 end']]))
      else values)"
  by pat_completeness auto
termination
  by (relation "measure (\<lambda>(i, ranges, values). length ranges - i)") auto

declare buffering_values.simps [simp del]

definition SendBufferingUpdate ::
  "('e, 'd) MediaEngineWrapper \<Rightarrow> ('e, 'd) VideoPlayer \<Rightarrow> ('e, 'd) VideoPlayer" where
  "SendBufferingUpdate ops s =
     (let ranges = eGetBufferedRanges ops (engine s);
          values = buffering_values 0 ranges []
      in Success (EMap [(EString ''event'', EString ''bufferingUpdate''),
                        (EString ''values'', EList values)]) s)"

definition OnMediaStateChange ::
  "('e, 'd) MediaEngineWrapper \<Rightarrow> BufferingState \<Rightarrow> ('e, 'd) VideoPlayer \<Rightarrow> ('e, 'd) VideoPlayer" where
  "OnMediaStateChange ops bufferingState s =
     (if bufferingState = HAVE_NOTHING then
        SendBufferingUpdate ops (SetBuffering True s)
      else
        (let s = (if \<not> isInitialized s
                  then SendInitialized ops (s\<lparr>isInitialized := True\<rparr>)
                  else s)
         in SetBuffering False s))"

definition OnPlaybackEnded :: "('e, 'd) VideoPlayer \<Rightarrow> ('e, 'd) VideoPlayer" where
  "OnPlaybackEnded s = Success (EMap [(EString ''event'', EString ''completed'')]) s"

definition Dispose ::
  "('e, 'd) MediaEngineWrapper \<Rightarrow> ('e, 'd) VideoPlayer \<Rightarrow> ('e, 'd) VideoPlayer" where
  "Dispose ops s =
     (let s = (if isInitialized s then s\<lparr>engine := ePause ops (engine s)\<rparr> else s)
      in s\<lparr>eventChannel := False\<rparr>)"

text \<open>
  \<^verbatim>\<open>UpdateVideoSize\<close>. Its first argument is what \<^verbatim>\<open>GetWindowRect\<close> answers at that moment:
  \<open>None\<close> when the call fails, the rectangle otherwise. The subtraction of two \<^verbatim>\<open>LONG\<close>s
  wraps around. The test \<^verbatim>\<open>if (m_mediaEngineWrapper)\<close> always succeeds, since the
  constructor creates the wrapper and nothing resets it.
\<close>

definition UpdateVideoSize ::
  "('e, 'd) MediaEngineWrapper \<Rightarrow> RECT option \<Rightarrow> ('e, 'd) VideoPlayer \<Rightarrow> ('e, 'd) VideoPlayer" where
  "UpdateVideoSize ops GetWindowRect s =
     (let s = (case GetWindowRect of
                 Some rect \<Rightarrow>
                   (let width = rect_right rect - rect_left rect;
                        height = rect_bottom rect - rect_top rect
                    in s\<lparr>m_windowSize := (float_of_int32 (sint width), float_of_int32 (sint height))\<rparr>)
               | None \<Rightarrow> s);
          windowInitialized = (fst (m_windowSize s) \<noteq> 0 \<and> snd (m_windowSize s) \<noteq> 0);
          width = (if windowInitialized then fst (m_windowSize s) else 640);
          height = (if windowInitialized then snd (m_windowSize s) else 480)
      in s\<lparr>engine := eOnWindowUpdate ops (uint32_of_float width) (uint32_of_float height) (engine s)\<rparr>)"

text \<open>
  \<^verbatim>\<open>ObtainDescriptorCallback\<close>, the frame request: \<open>width\<close> and \<open>height\<close> are \<^verbatim>\<open>size_t\<close>
  (64-bit) and are cast to \<^verbatim>\<open>uint32_t\<close>. The result is the new state; the descriptor the
  source returns a pointer to is its field \<open>m_descriptor\<close>.
\<close>

definition ObtainDescriptorCallback ::
  "('e, 'd) MediaEngineWrapper \<Rightarrow> RECT option \<Rightarrow> 64 word \<Rightarrow> 64 word \<Rightarrow>
   ('e, 'd) VideoPlayer \<Rightarrow> ('e, 'd) VideoPlayer" where
  "ObtainDescriptorCallback ops GetWindowRect width height s =
     (case eUpdateSurfaceDescriptor ops (ucast width) (ucast height) (m_descriptor s) (engine s) of
        (n, d, e) \<Rightarrow>
          UpdateVideoSize ops GetWindowRect
            (s\<lparr>m_descriptor := d, engine := e,
               framesAvailable := framesAvailable s @ replicate n (textureId s)\<rparr>))"

definition SetLooping ::
  "('e, 'd) MediaEngineWrapper \<Rightarrow> bool \<Rightarrow> ('e, 'd) VideoPlayer \<Rightarrow> ('e, 'd) VideoPlayer" where
  "SetLooping ops isLooping s = s\<lparr>engine := eSetLooping ops isLooping (engine s)\<rparr>"

definition Play ::
  "('e, 'd) MediaEngineWrapper \<Rightarrow> ('e, 'd) VideoPlayer \<Rightarrow> ('e, 'd) VideoPlayer" where
  "Play ops s = s\<lparr>engine := eStartPlayingFrom ops (eGetMediaTime ops (engine s)) (engine s)\<rparr>"

definition Pause ::
  "('e, 'd) MediaEngineWrapper \<Rightarrow> ('e, 'd) VideoPlayer \<Rightarrow> ('e, 'd) VideoPlayer" where
  "Pause ops s = s\<lparr>engine := ePause ops (engine s)\<rparr>"

definition GetPosition :: "('e, 'd) MediaEngineWrapper \<Rightarrow> ('e, 'd) VideoPlayer \<Rightarrow> 64 word" where
  "GetPosition ops s = eGetMediaTime ops (engine s)"

definition SeekTo ::
  "('e, 'd) MediaEngineWrapper \<Rightarrow> 64 word \<Rightarrow> ('e, 'd) VideoPlayer \<Rightarrow> ('e, 'd) VideoPlayer" where
  "SeekTo ops seek s = s\<lparr>engine := eSeekTo ops seek (engine s)\<rparr>"

definition GetTextureId :: "('e, 'd) VideoPlayer \<Rightarrow> 64 word" where
  "GetTextureId s = textureId s"

subsection \<open>Sessions as sequences of calls\<close>

text \<open>
  What can happen to a player after \<^verbatim>\<open>Init\<close>: the engine invokes one of the four callbacks
  bound in the constructor, the host attaches or detaches its listener, requests a
  frame, or issues a command.
\<close>

datatype action =
    CallOnMediaInitialized
  | CallOnMediaError "32 word" "32 word"
  | CallOnMediaStateChange BufferingState
  | CallOnPlaybackEnded
  | CallOnListen
  | CallOnCancel
  | CallObtainDescriptor "RECT option" "64 word" "64 word"
  | CallDispose
  | CallSetLooping bool
  | CallPlay
  | CallPause
  | CallSeekTo "64 word"

fun step ::
  "('e, 'd) MediaEngineWrapper \<Rightarrow> action \<Rightarrow> ('e, 'd) VideoPlayer \<Rightarrow> ('e, 'd) VideoPlayer" where
  "step ops CallOnMediaInitialized s = OnMediaInitialized ops s"
| "step ops (CallOnMediaError error hr) s = OnMediaError error hr s"
| "step ops (CallOnMediaStateChange b) s = OnMediaStateChange ops b s"
| "step ops CallOnPlaybackEnded s = OnPlaybackEnded s"
| "step ops CallOnListen s = OnListen s"
| "step ops CallOnCancel s = OnCancel s"
| "step ops (CallObtainDescriptor r w h) s = ObtainDescriptorCallback ops r w h s"
| "step ops CallDispose s = Dispose ops s"
| "step ops (CallSetLooping b) s = SetLooping ops b s"
| "step ops CallPlay s = Play ops s"
| "step ops CallPause s = Pause ops s"
| "step ops (CallSeekTo t) s = SeekTo ops t s"

fun run ::
  "('e, 'd) MediaEngineWrapper \<Rightarrow> action list \<Rightarrow> ('e, 'd) VideoPlayer \<Rightarrow> ('e, 'd) VideoPlayer" where
  "run ops [] s = s"
| "run ops (a # as) s = run ops as (step ops a s)"

text \<open>The engine callbacks, and those among them that signal readiness.\<close>

fun is_callback :: "action \<Rightarrow> bool" where
  "is_callback CallOnMediaInitialized = True"
| "is_callback (CallOnMediaError error hr) = True"
| "is_callback (CallOnMediaStateChange b) = True"
| "is_callback CallOnPlaybackEnded = True"
| "is_callback _ = False"

fun ready_signal :: "action \<Rightarrow> bool" where
  "ready_signal CallOnMediaInitialized = True"
| "ready_signal (CallOnMediaStateChange b) = (b \<noteq> HAVE_NOTHING)"
| "ready_signal _ = False"

text \<open>
  The events one call hands to the sink: what \<open>delivered\<close> gained.
\<close>

definition emitted ::
  "('e, 'd) MediaEngineWrapper \<Rightarrow> action \<Rightarrow> ('e, 'd) VideoPlayer \<Rightarrow> EncodableValue list" where
  "emitted ops a s = drop (length (delivered s)) (delivered (step ops a s))"

subsection \<open>A test double of the engine\<close>

text \<open>
  The concrete engine the examples below run on, in the manner of the stub engine of the
  specification's test scenarios: it records the commands it receives, its media time is
  the last seek target, and its queries answer fixed values. Its surface descriptor is
  the pair of the sizes it was asked for, and it invokes the frame-available callback
  once per update.
\<close>

datatype engine_call =
    Engine_SeekTo "64 word"
  | Engine_Pause
  | Engine_StartPlayingFrom "64 word"
  | Engine_SetLooping bool
  | Engine_UpdateSurfaceDescriptor "32 word" "32 word"
  | Engine_OnWindowUpdate "32 word" "32 word"

record stub_engine =
  stub_time :: "64 word"
  stub_calls :: "engine_call list"

definition stub_ops :: "(stub_engine, 32 word \<times> 32 word) MediaEngineWrapper" where
  "stub_ops =
     \<lparr> eSeekTo = (\<lambda>t e. e\<lparr>stub_time := t, stub_calls := stub_calls e @ [Engine_SeekTo t]\<rparr>),
       ePause = (\<lambda>e. e\<lparr>stub_calls := stub_calls e @ [Engine_Pause]\<rparr>),
       eStartPlayingFrom = (\<lambda>t e. e\<lparr>stub_calls := stub_calls e @ [Engine_StartPlayingFrom t]\<rparr>),
       eSetLooping = (\<lambda>b e. e\<lparr>stub_calls := stub_calls e @ [Engine_SetLooping b]\<rparr>),
       eGetMediaTime = stub_time,
       eGetDuration = (\<lambda>e. 5000),
       eGetNativeVideoSize = (\<lambda>e. (1280, 720)),
       eGetBufferedRanges = (\<lambda>e. [(0, 1000), (2000, 3000)]),
       eUpdateSurfaceDescriptor =
         (\<lambda>w h d e. (1, (w, h), e\<lparr>stub_calls := stub_calls e @ [Engine_UpdateSurfaceDescriptor w h]\<rparr>)),
       eOnWindowUpdate = (\<lambda>w h e. e\<lparr>stub_calls := stub_calls e @ [Engine_OnWindowUpdate w h]\<rparr>) \<rparr>"

text \<open>
  A session on the test double right after \<^verbatim>\<open>Init\<close>, listener attached, not initialized,
  no window size read yet.
\<close>

definition stub_player :: "(stub_engine, 32 word \<times> 32 word) VideoPlayer" where
  "stub_player =
     \<lparr> m_valid = True, isInitialized = False, eventChannel = True, eventSink = True,
       textureId = 7, m_windowSize = (0, 0), m_descriptor = (0, 0),
       engine = \<lparr> stub_time = 0, stub_calls = [] \<rparr>,
       delivered = [], framesAvailable = [] \<rparr>"

section \<open>Properties\<close>

subsection \<open>Auxiliary facts\<close>

lemmas player_defs =
  Success_def OnListen_def OnCancel_def SendInitialized_def OnMediaInitialized_def
  OnMediaError_def SetBuffering_def SendBufferingUpdate_def OnMediaStateChange_def
  OnPlaybackEnded_def Dispose_def UpdateVideoSize_def ObtainDescriptorCallback_def
  SetLooping_def Play_def Pause_def SeekTo_def

lemma count_event_append [simp]:
  "count_event n (xs @ ys) = count_event n xs + count_event n ys"
  by (simp add: count_event_def)

lemma count_event_Nil [simp]: "count_event n [] = 0"
  by (simp add: count_event_def)

lemma count_event_Cons [simp]:
  "count_event n (e # evs) = (if event_name e = Some n then 1 else 0) + count_event n evs"
  by (simp add: count_event_def)

lemma step_isInitialized_mono: "isInitialized s \<Longrightarrow> isInitialized (step ops a s)"
  by (cases a) (simp_all add: player_defs Let_def split: prod.splits option.splits)

lemma step_becomes_initialized:
  "\<not> isInitialized s \<Longrightarrow> isInitialized (step ops a s) \<Longrightarrow> ready_signal a"
  by (cases a) (simp_all add: player_defs Let_def split: prod.splits option.splits if_splits)

lemma step_count_initialized:
  "count_event ''initialized'' (delivered (step ops a s)) =
   count_event ''initialized'' (delivered s) +
   (if \<not> isInitialized s \<and> isInitialized (step ops a s) \<and> eventSink s then 1 else 0)"
  by (cases a) (simp_all add: player_defs Let_def split: prod.splits option.splits)

lemma run_isInitialized_mono: "isInitialized s \<Longrightarrow> isInitialized (run ops acts s)"
  by (induction acts arbitrary: s) (simp_all add: step_isInitialized_mono)

lemma run_count_initialized:
  "count_event ''initialized'' (delivered (run ops acts s)) \<le>
   count_event ''initialized'' (delivered s) + (if isInitialized s then 0 else 1)"
proof (induction acts arbitrary: s)
  case Nil
  show ?case by simp
next
  case (Cons a acts)
  show ?case
    using Cons.IH [of "step ops a s"] step_count_initialized [of ops a s]
      step_isInitialized_mono [of s ops a]
    by (cases "isInitialized s"; cases "isInitialized (step ops a s)"; cases "eventSink s")
       simp_all
qed

lemma run_no_ready_signal:
  "\<forall>a \<in> set acts. \<not> ready_signal a \<Longrightarrow>
   count_event ''initialized'' (delivered (run ops acts s)) =
     count_event ''initialized'' (delivered s)
   \<and> isInitialized (run ops acts s) = isInitialized s"
proof (induction acts arbitrary: s)
  case Nil
  show ?case by simp
next
  case (Cons a acts)
  have nr: "\<not> ready_signal a" using Cons.prems by simp
  have same: "isInitialized (step ops a s) = isInitialized s"
    using nr step_becomes_initialized [of s ops a] step_isInitialized_mono [of s ops a] by blast
  show ?case
    using Cons.IH [of "step ops a s"] Cons.prems step_count_initialized [of ops a s] same
    by simp
qed

lemma step_detached: "\<not> eventSink s \<Longrightarrow> delivered (step ops a s) = delivered s"
  by (cases a) (simp_all add: player_defs Let_def split: prod.splits option.splits)

subsection \<open>Initialization\<close>

text \<open>
  Claim C1. Over every sequence of calls (engine callbacks, and host calls between
  them): \<open>isInitialized\<close>, once true, stays true, so it goes from false to true at
  most once; the run hands the sink at most one "initialized" event, and none when it
  starts initialized; a single call hands over an "initialized" event exactly when it
  turns the flag from false to true with the listener attached, and then exactly one;
  the flag is only turned by \<^verbatim>\<open>OnMediaInitialized\<close> or by a buffering callback other
  than \<^verbatim>\<open>HAVE_NOTHING\<close>, so a run without those two leaves the flag and the number of
  "initialized" events as they were.
\<close>

theorem initialized_at_most_once:
  "(isInitialized s \<longrightarrow> isInitialized (run ops acts s))
   \<and> count_event ''initialized'' (delivered (run ops acts s))
       \<le> count_event ''initialized'' (delivered s) + (if isInitialized s then 0 else 1)
   \<and> count_event ''initialized'' (delivered (step ops a s))
       = count_event ''initialized'' (delivered s)
         + (if \<not> isInitialized s \<and> isInitialized (step ops a s) \<and> eventSink s then 1 else 0)
   \<and> (\<not> isInitialized s \<and> isInitialized (step ops a s) \<longrightarrow> ready_signal a)
   \<and> ((\<forall>a \<in> set acts. \<not> ready_signal a) \<longrightarrow>
        count_event ''initialized'' (delivered (run ops acts s))
          = count_event ''initialized'' (delivered s)
        \<and> isInitialized (run ops acts s) = isInitialized s)"
  using run_isInitialized_mono [of s ops acts] run_count_initialized [of ops acts s]
    step_count_initialized [of ops a s] step_becomes_initialized [of s ops a]
    run_no_ready_signal [of acts ops s]
  by blast

theorem initialized_at_most_once_witness:
  "\<not> isInitialized stub_player
   \<and> isInitialized (step stub_ops (CallOnMediaStateChange HAVE_ENOUGH) stub_player)
   \<and> ready_signal (CallOnMediaStateChange HAVE_ENOUGH)
   \<and> count_event ''initialized'' (delivered (run stub_ops
        [CallOnMediaStateChange HAVE_NOTHING, CallOnMediaStateChange HAVE_ENOUGH,
         CallOnMediaInitialized] stub_player)) = 1
   \<and> isInitialized (stub_player\<lparr>isInitialized := True\<rparr>)
   \<and> \<not> ready_signal (CallOnMediaError 1 2)
   \<and> \<not> ready_signal CallOnPlaybackEnded
   \<and> \<not> ready_signal (CallOnMediaStateChange HAVE_NOTHING)
   \<and> isInitialized (run stub_ops
        [CallOnMediaError 1 2, CallOnPlaybackEnded, CallOnMediaStateChange HAVE_NOTHING]
        (stub_player\<lparr>isInitialized := True\<rparr>))
   \<and> count_event ''initialized'' (delivered (run stub_ops
        [CallOnMediaError 1 2, CallOnPlaybackEnded, CallOnMediaStateChange HAVE_NOTHING]
        (stub_player\<lparr>isInitialized := True\<rparr>))) = 0"
  using initialized_at_most_once [where s = stub_player and ops = stub_ops
      and a = "CallOnMediaStateChange HAVE_ENOUGH"
      and acts = "[CallOnMediaStateChange HAVE_NOTHING, CallOnMediaStateChange HAVE_ENOUGH,
         CallOnMediaInitialized]"]
    initialized_at_most_once [where s = "stub_player\<lparr>isInitialized := True\<rparr>" and ops = stub_ops
      and a = "CallOnPlaybackEnded"
      and acts = "[CallOnMediaError 1 2, CallOnPlaybackEnded, CallOnMediaStateChange HAVE_NOTHING]"]
  by (simp add: player_defs stub_ops_def stub_player_def buffering_values.simps)

text \<open>
  Claim C6. \<^verbatim>\<open>OnMediaInitialized\<close> always seeks the engine to 0, and does so first: on a
  session not yet initialized the "initialized" event is built from the engine after the
  seek; on a session already initialized the seek is all that happens, so the sink
  receives nothing. Invoked twice in a row, it seeks twice and the second invocation
  delivers no event.
\<close>

theorem onInitialized_seeks_first:
  "engine (OnMediaInitialized ops s) = eSeekTo ops 0 (engine s)
   \<and> (isInitialized s \<longrightarrow>
        OnMediaInitialized ops s = s\<lparr>engine := eSeekTo ops 0 (engine s)\<rparr>
        \<and> delivered (OnMediaInitialized ops s) = delivered s)
   \<and> (\<not> isInitialized s \<longrightarrow>
        OnMediaInitialized ops s =
          SendInitialized ops (s\<lparr>engine := eSeekTo ops 0 (engine s), isInitialized := True\<rparr>))
   \<and> engine (OnMediaInitialized ops (OnMediaInitialized ops s))
       = eSeekTo ops 0 (eSeekTo ops 0 (engine s))
   \<and> delivered (OnMediaInitialized ops (OnMediaInitialized ops s))
       = delivered (OnMediaInitialized ops s)"
  by (simp add: player_defs Let_def split: prod.splits)

theorem onInitialized_seeks_first_witness:
  "isInitialized (OnMediaInitialized stub_ops stub_player)
   \<and> stub_calls (engine (OnMediaInitialized stub_ops (OnMediaInitialized stub_ops stub_player)))
       = [Engine_SeekTo 0, Engine_SeekTo 0]
   \<and> delivered (OnMediaInitialized stub_ops (OnMediaInitialized stub_ops stub_player))
       = [EMap [(EString ''event'', EString ''initialized''),
                (EString ''duration'', EInt64 5000),
                (EString ''width'', EInt32 1280), (EString ''height'', EInt32 720)]]
   \<and> \<not> isInitialized stub_player"
  using onInitialized_seeks_first [of stub_ops "OnMediaInitialized stub_ops stub_player"]
    onInitialized_seeks_first [of stub_ops stub_player]
  by (simp add: player_defs stub_ops_def stub_player_def)

subsection \<open>Transport\<close>

text \<open>
  Claim C10. \<^verbatim>\<open>SeekTo\<close> and \<^verbatim>\<open>GetPosition\<close> pass straight through to the engine, so
  \<^verbatim>\<open>GetPosition\<close> after \<^verbatim>\<open>SeekTo(T)\<close> is the engine's media time after its seek to \<open>T\<close>;
  on an engine whose media time is the last seek target it is \<open>T\<close>.
\<close>

theorem seekTo_then_getPosition:
  "GetPosition ops (SeekTo ops T s) = eGetMediaTime ops (eSeekTo ops T (engine s))
   \<and> ((\<forall>t e. eGetMediaTime ops (eSeekTo ops t e) = t) \<longrightarrow>
        GetPosition ops (SeekTo ops T s) = T)"
  by (simp add: GetPosition_def SeekTo_def)

theorem seekTo_then_getPosition_witness:
  "GetPosition stub_ops (SeekTo stub_ops 90000 stub_player) = 90000"
proof -
  have double: "\<forall>t e. eGetMediaTime stub_ops (eSeekTo stub_ops t e) = t"
    by (simp add: stub_ops_def)
  show ?thesis
    using seekTo_then_getPosition [of stub_ops 90000 stub_player] double by blast
qed

subsection \<open>Events and the listener\<close>

lemma buffering_values_eq:
  "buffering_values i ranges vals =
   vals @ map (\<lambda>(start, end'). EList [EInt64 start, EInt64 end']) (drop i ranges)"
proof (induction i ranges vals rule: buffering_values.induct)
  case (1 i ranges vals)
  show ?case
  proof (cases "i < length ranges")
    case True
    obtain start end' where p: "(start, end') = ranges ! i"
      by (metis surj_pair)
    have d: "drop i ranges = ranges ! i # drop (i + 1) ranges"
      using True by (simp add: Cons_nth_drop_Suc)
    have "buffering_values i ranges vals =
          buffering_values (i + 1) ranges (vals @ [EList [EInt64 start, EInt64 end']])"
      using True p [symmetric] by (subst buffering_values.simps) simp
    also have "\<dots> = (vals @ [EList [EInt64 start, EInt64 end']]) @
          map (\<lambda>(start, end'). EList [EInt64 start, EInt64 end']) (drop (i + 1) ranges)"
      using "1.IH" [OF True p] by simp
    finally show ?thesis
      using d p [symmetric] by simp
  next
    case False
    then show ?thesis
      by (subst buffering_values.simps) simp
  qed
qed

lemma SendBufferingUpdate_eq:
  "SendBufferingUpdate ops s =
   Success (EMap [(EString ''event'', EString ''bufferingUpdate''),
                  (EString ''values'',
                   EList (map (\<lambda>(start, end'). EList [EInt64 start, EInt64 end'])
                            (eGetBufferedRanges ops (engine s))))]) s"
  by (simp add: SendBufferingUpdate_def buffering_values_eq)

lemmas event_defs =
  Success_def OnListen_def OnCancel_def SendInitialized_def OnMediaInitialized_def
  OnMediaError_def SetBuffering_def SendBufferingUpdate_eq OnMediaStateChange_def
  OnPlaybackEnded_def Dispose_def UpdateVideoSize_def ObtainDescriptorCallback_def
  SetLooping_def Play_def Pause_def SeekTo_def

lemma emitted_HAVE_NOTHING:
  "emitted ops (CallOnMediaStateChange HAVE_NOTHING) s =
   (if eventSink s then
      [EMap [(EString ''event'', EString ''bufferingStart'')],
       EMap [(EString ''event'', EString ''bufferingUpdate''),
             (EString ''values'',
              EList (map (\<lambda>(start, end'). EList [EInt64 start, EInt64 end'])
                       (eGetBufferedRanges ops (engine s))))]]
    else [])"
  by (simp add: emitted_def event_defs)


lemma emitted_OnMediaStateChange:
  "b \<noteq> HAVE_NOTHING \<Longrightarrow> emitted ops (CallOnMediaStateChange b) s =
   (if eventSink s then
      (if isInitialized s then []
       else [EMap [(EString ''event'', EString ''initialized''),
                   (EString ''duration'', EInt64 (eGetDuration ops (engine s))),
                   (EString ''width'', EInt32 (fst (eGetNativeVideoSize ops (engine s)))),
                   (EString ''height'', EInt32 (snd (eGetNativeVideoSize ops (engine s))))]])
      @ [EMap [(EString ''event'', EString ''bufferingEnd'')]]
    else [])"
  by (simp add: emitted_def event_defs Let_def split: prod.splits)

lemma emitted_OnMediaInitialized:
  "emitted ops CallOnMediaInitialized s =
   (if eventSink s \<and> \<not> isInitialized s then
      [EMap [(EString ''event'', EString ''initialized''),
             (EString ''duration'', EInt64 (eGetDuration ops (eSeekTo ops 0 (engine s)))),
             (EString ''width'', EInt32 (fst (eGetNativeVideoSize ops (eSeekTo ops 0 (engine s))))),
             (EString ''height'', EInt32 (snd (eGetNativeVideoSize ops (eSeekTo ops 0 (engine s)))))]]
    else [])"
  by (simp add: emitted_def event_defs Let_def split: prod.splits)

lemma emitted_OnPlaybackEnded:
  "emitted ops CallOnPlaybackEnded s =
   (if eventSink s then [EMap [(EString ''event'', EString ''completed'')]] else [])"
  by (simp add: emitted_def event_defs)

lemma emitted_other:
  "\<not> is_callback a \<Longrightarrow> emitted ops a s = []"
  by (cases a) (simp_all add: emitted_def event_defs Let_def split: prod.splits option.splits)

lemma emitted_OnMediaError: "emitted ops (CallOnMediaError error hr) s = []"
  by (simp add: emitted_def event_defs)

lemma step_delivered: "delivered (step ops a s) = delivered s @ emitted ops a s"
  by (cases a) (simp_all add: emitted_def event_defs Let_def split: prod.splits option.splits)


lemma emitted_bufferingUpdate:
  "e \<in> set (emitted ops a s) \<Longrightarrow> event_name e = Some ''bufferingUpdate'' \<Longrightarrow>
   e = EMap [(EString ''event'', EString ''bufferingUpdate''),
             (EString ''values'',
              EList (map (\<lambda>(start, end'). EList [EInt64 start, EInt64 end'])
                       (eGetBufferedRanges ops (engine s))))]"
proof (cases a)
  case CallOnMediaInitialized
  assume "e \<in> set (emitted ops a s)" "event_name e = Some ''bufferingUpdate''"
  then show ?thesis
    unfolding CallOnMediaInitialized emitted_OnMediaInitialized
    by (cases "eventSink s \<and> \<not> isInitialized s") auto
next
  case (CallOnMediaStateChange b)
  assume "e \<in> set (emitted ops a s)" "event_name e = Some ''bufferingUpdate''"
  then show ?thesis
    unfolding CallOnMediaStateChange
    by (cases "b = HAVE_NOTHING"; cases "eventSink s"; cases "isInitialized s")
       (auto simp add: emitted_HAVE_NOTHING emitted_OnMediaStateChange)
next
  case CallOnPlaybackEnded
  assume "e \<in> set (emitted ops a s)" "event_name e = Some ''bufferingUpdate''"
  then show ?thesis
    unfolding CallOnPlaybackEnded emitted_OnPlaybackEnded
    by (cases "eventSink s") auto
qed (simp_all add: emitted_other emitted_OnMediaError)

text \<open>
  Claim C7. The "bufferingUpdate" event \<^verbatim>\<open>SendBufferingUpdate\<close> hands to the sink has,
  under \<^verbatim>\<open>"values"\<close>, the list with one two-element list of start and end per range the
  engine reports, in the engine's order. Every "bufferingUpdate" event any call hands to
  the sink is that event. A \<^verbatim>\<open>HAVE_NOTHING\<close> buffering callback emits "bufferingStart" and
  then this "bufferingUpdate" (to the attached listener; a detached one receives neither).
\<close>

theorem bufferingUpdate_values:
  "SendBufferingUpdate ops s =
     Success (EMap [(EString ''event'', EString ''bufferingUpdate''),
                    (EString ''values'',
                     EList (map (\<lambda>(start, end'). EList [EInt64 start, EInt64 end'])
                              (eGetBufferedRanges ops (engine s))))]) s
   \<and> (\<forall>e \<in> set (emitted ops a s). event_name e = Some ''bufferingUpdate'' \<longrightarrow>
        e = EMap [(EString ''event'', EString ''bufferingUpdate''),
                  (EString ''values'',
                   EList (map (\<lambda>(start, end'). EList [EInt64 start, EInt64 end'])
                            (eGetBufferedRanges ops (engine s))))])
   \<and> emitted ops (CallOnMediaStateChange HAVE_NOTHING) s =
       (if eventSink s then
          [EMap [(EString ''event'', EString ''bufferingStart'')],
           EMap [(EString ''event'', EString ''bufferingUpdate''),
                 (EString ''values'',
                  EList (map (\<lambda>(start, end'). EList [EInt64 start, EInt64 end'])
                           (eGetBufferedRanges ops (engine s))))]]
        else [])"
  using SendBufferingUpdate_eq [of ops s] emitted_bufferingUpdate [of _ ops a s]
    emitted_HAVE_NOTHING [of ops s]
  by blast


theorem bufferingUpdate_values_witness:
  "emitted stub_ops (CallOnMediaStateChange HAVE_NOTHING) stub_player =
     [EMap [(EString ''event'', EString ''bufferingStart'')],
      EMap [(EString ''event'', EString ''bufferingUpdate''),
            (EString ''values'',
             EList [EList [EInt64 0, EInt64 1000], EList [EInt64 2000, EInt64 3000]])]]
   \<and> EMap [(EString ''event'', EString ''bufferingUpdate''),
            (EString ''values'',
             EList [EList [EInt64 0, EInt64 1000], EList [EInt64 2000, EInt64 3000]])]
       \<in> set (emitted stub_ops (CallOnMediaStateChange HAVE_NOTHING) stub_player)
   \<and> event_name (EMap [(EString ''event'', EString ''bufferingUpdate''),
            (EString ''values'',
             EList [EList [EInt64 0, EInt64 1000], EList [EInt64 2000, EInt64 3000]])])
       = Some ''bufferingUpdate''"
  using bufferingUpdate_values [of stub_ops stub_player "CallOnMediaStateChange HAVE_NOTHING"]
  by (simp add: emitted_HAVE_NOTHING stub_ops_def stub_player_def)














subsection \<open>Buffering events\<close>

lemma OnMediaStateChange_HAVE_NOTHING:
  "OnMediaStateChange ops HAVE_NOTHING s =
   s\<lparr>delivered := delivered s @
       (if eventSink s then
          [EMap [(EString ''event'', EString ''bufferingStart'')],
           EMap [(EString ''event'', EString ''bufferingUpdate''),
                 (EString ''values'',
                  EList (map (\<lambda>(start, end'). EList [EInt64 start, EInt64 end'])
                           (eGetBufferedRanges ops (engine s))))]]
        else [])\<rparr>"
  by (simp add: OnMediaStateChange_def SetBuffering_def SendBufferingUpdate_eq Success_def)

lemma OnMediaStateChange_ready_initialized:
  "b \<noteq> HAVE_NOTHING \<Longrightarrow> isInitialized s \<Longrightarrow>
   OnMediaStateChange ops b s =
   s\<lparr>delivered := delivered s @
       (if eventSink s then [EMap [(EString ''event'', EString ''bufferingEnd'')]] else [])\<rparr>"
  by (simp add: OnMediaStateChange_def SetBuffering_def Success_def)

lemma OnMediaStateChange_ready_uninitialized:
  "b \<noteq> HAVE_NOTHING \<Longrightarrow> \<not> isInitialized s \<Longrightarrow>
   OnMediaStateChange ops b s =
   s\<lparr>isInitialized := True,
     delivered := delivered s @
       (if eventSink s then
          [EMap [(EString ''event'', EString ''initialized''),
                 (EString ''duration'', EInt64 (eGetDuration ops (engine s))),
                 (EString ''width'', EInt32 (fst (eGetNativeVideoSize ops (engine s)))),
                 (EString ''height'', EInt32 (snd (eGetNativeVideoSize ops (engine s))))],
           EMap [(EString ''event'', EString ''bufferingEnd'')]]
        else [])\<rparr>"
  by (simp add: OnMediaStateChange_def SetBuffering_def SendInitialized_def Success_def
        Let_def split: prod.splits)

lemma run_HAVE_NOTHING:
  "\<forall>b \<in> set bs. b = HAVE_NOTHING \<Longrightarrow>
   run ops (map CallOnMediaStateChange bs) s =
   s\<lparr>delivered := delivered s @
       (if eventSink s then
          concat (replicate (length bs)
            [EMap [(EString ''event'', EString ''bufferingStart'')],
             EMap [(EString ''event'', EString ''bufferingUpdate''),
                   (EString ''values'',
                    EList (map (\<lambda>(start, end'). EList [EInt64 start, EInt64 end'])
                             (eGetBufferedRanges ops (engine s))))]])
        else [])\<rparr>"
proof (induction bs arbitrary: s)
  case Nil
  show ?case by simp
next
  case (Cons b bs)
  have b: "b = HAVE_NOTHING" and rest: "\<forall>b \<in> set bs. b = HAVE_NOTHING"
    using Cons.prems by simp_all
  show ?case
    using Cons.IH [OF rest, of "OnMediaStateChange ops HAVE_NOTHING s"]
    by (simp add: b OnMediaStateChange_HAVE_NOTHING)
qed

lemma count_event_concat_replicate:
  "count_event n (concat (replicate k evs)) = k * count_event n evs"
  by (induction k) simp_all


text \<open>
  Claim C3, as the code has it. The claim says that buffering callbacks arriving before
  initialization emit no "bufferingStart" and no "bufferingEnd". The callback does not
  look at \<open>isInitialized\<close> on its \<^verbatim>\<open>HAVE_NOTHING\<close> branch: on a session that is not
  initialized and has its listener attached, one \<^verbatim>\<open>HAVE_NOTHING\<close> callback delivers a
  "bufferingStart" and leaves the session uninitialized, and the first callback other than
  \<^verbatim>\<open>HAVE_NOTHING\<close> delivers a "bufferingEnd" after the "initialized" event.
\<close>

theorem buffering_before_initialization_counterexample:
  "\<not> isInitialized stub_player
   \<and> count_event ''bufferingStart''
        (delivered (run stub_ops [CallOnMediaStateChange HAVE_NOTHING] stub_player)) = 1
   \<and> \<not> isInitialized (run stub_ops [CallOnMediaStateChange HAVE_NOTHING] stub_player)
   \<and> delivered (run stub_ops [CallOnMediaStateChange HAVE_ENOUGH] stub_player) =
       [EMap [(EString ''event'', EString ''initialized''),
              (EString ''duration'', EInt64 5000),
              (EString ''width'', EInt32 1280), (EString ''height'', EInt32 720)],
        EMap [(EString ''event'', EString ''bufferingEnd'')]]"
  by (simp add: OnMediaStateChange_HAVE_NOTHING OnMediaStateChange_ready_uninitialized
        stub_ops_def stub_player_def)

text \<open>
  Claim C3, amended. A sequence of buffering callbacks leaves a session uninitialized
  exactly when all of them are \<^verbatim>\<open>HAVE_NOTHING\<close>. Such a sequence changes nothing in the
  session but the delivered events: with the listener attached each callback delivers
  one "bufferingStart" and one "bufferingUpdate", with the listener detached nothing;
  no "bufferingEnd" and no "initialized" event is delivered. A callback other than
  \<^verbatim>\<open>HAVE_NOTHING\<close> arriving at an uninitialized session sets \<open>isInitialized\<close> and
  delivers "initialized" followed by "bufferingEnd" to an attached listener.
\<close>

theorem buffering_before_initialization:
  assumes "\<not> isInitialized s" and "\<forall>b \<in> set bs. b = HAVE_NOTHING"
  shows
  "run ops (map CallOnMediaStateChange bs) s =
     s\<lparr>delivered := delivered s @
         (if eventSink s then
            concat (replicate (length bs)
              [EMap [(EString ''event'', EString ''bufferingStart'')],
               EMap [(EString ''event'', EString ''bufferingUpdate''),
                     (EString ''values'',
                      EList (map (\<lambda>(start, end'). EList [EInt64 start, EInt64 end'])
                               (eGetBufferedRanges ops (engine s))))]])
          else [])\<rparr>
   \<and> \<not> isInitialized (run ops (map CallOnMediaStateChange bs) s)
   \<and> count_event ''bufferingStart'' (delivered (run ops (map CallOnMediaStateChange bs) s))
       = count_event ''bufferingStart'' (delivered s) + (if eventSink s then length bs else 0)
   \<and> count_event ''bufferingEnd'' (delivered (run ops (map CallOnMediaStateChange bs) s))
       = count_event ''bufferingEnd'' (delivered s)
   \<and> count_event ''initialized'' (delivered (run ops (map CallOnMediaStateChange bs) s))
       = count_event ''initialized'' (delivered s)
   \<and> (b \<noteq> HAVE_NOTHING \<longrightarrow>
        OnMediaStateChange ops b s =
          s\<lparr>isInitialized := True,
            delivered := delivered s @
              (if eventSink s then
                 [EMap [(EString ''event'', EString ''initialized''),
                        (EString ''duration'', EInt64 (eGetDuration ops (engine s))),
                        (EString ''width'', EInt32 (fst (eGetNativeVideoSize ops (engine s)))),
                        (EString ''height'', EInt32 (snd (eGetNativeVideoSize ops (engine s))))],
                  EMap [(EString ''event'', EString ''bufferingEnd'')]]
               else [])\<rparr>)"
  using assms(1) OnMediaStateChange_ready_uninitialized [of b s ops]
  by (simp add: run_HAVE_NOTHING [OF assms(2)] count_event_concat_replicate)

theorem buffering_before_initialization_witness:
  "\<not> isInitialized stub_player
   \<and> \<not> isInitialized (run stub_ops
        (map CallOnMediaStateChange [HAVE_NOTHING, HAVE_NOTHING, HAVE_NOTHING]) stub_player)
   \<and> count_event ''bufferingStart'' (delivered (run stub_ops
        (map CallOnMediaStateChange [HAVE_NOTHING, HAVE_NOTHING, HAVE_NOTHING]) stub_player)) = 3
   \<and> count_event ''bufferingEnd'' (delivered (run stub_ops
        (map CallOnMediaStateChange [HAVE_NOTHING, HAVE_NOTHING, HAVE_NOTHING]) stub_player)) = 0
   \<and> HAVE_ENOUGH \<noteq> HAVE_NOTHING
   \<and> isInitialized (OnMediaStateChange stub_ops HAVE_ENOUGH stub_player)"
proof -
  have u: "\<not> isInitialized stub_player"
    by (simp add: stub_player_def)
  have n: "\<forall>b \<in> set [HAVE_NOTHING, HAVE_NOTHING, HAVE_NOTHING]. b = HAVE_NOTHING"
    by simp
  show ?thesis
    using buffering_before_initialization [OF u n, of stub_ops HAVE_ENOUGH] u
    by (simp add: stub_player_def)
qed

text \<open>
  Claim C4, as the code has it. The claim lets a callback other than \<^verbatim>\<open>HAVE_NOTHING\<close> emit
  "bufferingEnd" only if the session was buffering. The player keeps no buffering flag:
  on an initialized session with its listener attached, two such callbacks in a row
  deliver two "bufferingEnd" events, the second without any \<^verbatim>\<open>HAVE_NOTHING\<close> before it.
\<close>

theorem buffering_after_initialization_counterexample:
  "isInitialized (stub_player\<lparr>isInitialized := True\<rparr>)
   \<and> delivered (run stub_ops
        [CallOnMediaStateChange HAVE_ENOUGH, CallOnMediaStateChange HAVE_ENOUGH]
        (stub_player\<lparr>isInitialized := True\<rparr>)) =
       [EMap [(EString ''event'', EString ''bufferingEnd'')],
        EMap [(EString ''event'', EString ''bufferingEnd'')]]"
  by (simp add: OnMediaStateChange_ready_initialized stub_player_def)

text \<open>
  Claim C4, amended. On an initialized session a buffering callback changes only the
  delivered events. With the listener attached, a \<^verbatim>\<open>HAVE_NOTHING\<close> callback delivers exactly
  one "bufferingStart" (followed by one "bufferingUpdate") and no "bufferingEnd", and
  every other callback delivers exactly one "bufferingEnd", also right after another
  such callback: there is no buffering flag. With the listener detached neither delivers
  anything.
\<close>

theorem buffering_after_initialization:
  assumes "isInitialized s"
  shows
  "OnMediaStateChange ops b s =
     s\<lparr>delivered := delivered s @
         (if eventSink s then
            (if b = HAVE_NOTHING then
               [EMap [(EString ''event'', EString ''bufferingStart'')],
                EMap [(EString ''event'', EString ''bufferingUpdate''),
                      (EString ''values'',
                       EList (map (\<lambda>(start, end'). EList [EInt64 start, EInt64 end'])
                                (eGetBufferedRanges ops (engine s))))]]
             else [EMap [(EString ''event'', EString ''bufferingEnd'')]])
          else [])\<rparr>
   \<and> (eventSink s \<longrightarrow>
        count_event ''bufferingStart'' (emitted ops (CallOnMediaStateChange HAVE_NOTHING) s) = 1
        \<and> count_event ''bufferingEnd'' (emitted ops (CallOnMediaStateChange HAVE_NOTHING) s) = 0
        \<and> (b \<noteq> HAVE_NOTHING \<longrightarrow>
             emitted ops (CallOnMediaStateChange b) s
               = [EMap [(EString ''event'', EString ''bufferingEnd'')]]
             \<and> (b' \<noteq> HAVE_NOTHING \<longrightarrow>
                  emitted ops (CallOnMediaStateChange b') (step ops (CallOnMediaStateChange b) s)
                    = [EMap [(EString ''event'', EString ''bufferingEnd'')]])))
   \<and> (\<not> eventSink s \<longrightarrow> emitted ops (CallOnMediaStateChange b) s = [])"
proof -
  have st: "OnMediaStateChange ops b s =
     s\<lparr>delivered := delivered s @
         (if eventSink s then
            (if b = HAVE_NOTHING then
               [EMap [(EString ''event'', EString ''bufferingStart'')],
                EMap [(EString ''event'', EString ''bufferingUpdate''),
                      (EString ''values'',
                       EList (map (\<lambda>(start, end'). EList [EInt64 start, EInt64 end'])
                                (eGetBufferedRanges ops (engine s))))]]
             else [EMap [(EString ''event'', EString ''bufferingEnd'')]])
          else [])\<rparr>"
    using assms
    by (cases "b = HAVE_NOTHING")
       (simp_all add: OnMediaStateChange_HAVE_NOTHING OnMediaStateChange_ready_initialized)
  have starts: "eventSink s \<Longrightarrow>
      count_event ''bufferingStart'' (emitted ops (CallOnMediaStateChange HAVE_NOTHING) s) = 1
      \<and> count_event ''bufferingEnd'' (emitted ops (CallOnMediaStateChange HAVE_NOTHING) s) = 0"
    by (simp add: emitted_HAVE_NOTHING)
  have ready: "eventSink s \<Longrightarrow> b \<noteq> HAVE_NOTHING \<Longrightarrow>
      emitted ops (CallOnMediaStateChange b) s = [EMap [(EString ''event'', EString ''bufferingEnd'')]]"
    using assms by (simp add: emitted_OnMediaStateChange)
  have again: "eventSink s \<Longrightarrow> b \<noteq> HAVE_NOTHING \<Longrightarrow> b' \<noteq> HAVE_NOTHING \<Longrightarrow>
      emitted ops (CallOnMediaStateChange b') (step ops (CallOnMediaStateChange b) s)
        = [EMap [(EString ''event'', EString ''bufferingEnd'')]]"
    using assms by (simp add: emitted_OnMediaStateChange OnMediaStateChange_ready_initialized)
  have detached: "\<not> eventSink s \<Longrightarrow> emitted ops (CallOnMediaStateChange b) s = []"
    by (cases "b = HAVE_NOTHING") (simp_all add: emitted_HAVE_NOTHING emitted_OnMediaStateChange)
  show ?thesis
    using starts ready again detached
    by (intro conjI impI st) blast+
qed

theorem buffering_after_initialization_witness:
  "isInitialized (stub_player\<lparr>isInitialized := True\<rparr>)
   \<and> eventSink (stub_player\<lparr>isInitialized := True\<rparr>)
   \<and> HAVE_ENOUGH \<noteq> HAVE_NOTHING
   \<and> emitted stub_ops (CallOnMediaStateChange HAVE_ENOUGH)
        (step stub_ops (CallOnMediaStateChange HAVE_ENOUGH) (stub_player\<lparr>isInitialized := True\<rparr>))
       = [EMap [(EString ''event'', EString ''bufferingEnd'')]]
   \<and> count_event ''bufferingStart''
        (emitted stub_ops (CallOnMediaStateChange HAVE_NOTHING)
           (stub_player\<lparr>isInitialized := True\<rparr>)) = 1
   \<and> \<not> eventSink (OnCancel (stub_player\<lparr>isInitialized := True\<rparr>))
   \<and> emitted stub_ops (CallOnMediaStateChange HAVE_NOTHING)
        (OnCancel (stub_player\<lparr>isInitialized := True\<rparr>)) = []"
proof -
  have i: "isInitialized (stub_player\<lparr>isInitialized := True\<rparr>)"
    by simp
  have j: "isInitialized (OnCancel (stub_player\<lparr>isInitialized := True\<rparr>))"
    by (simp add: OnCancel_def)
  show ?thesis
    using buffering_after_initialization [OF i, of stub_ops HAVE_ENOUGH HAVE_ENOUGH]
      buffering_after_initialization [OF j, of stub_ops HAVE_NOTHING HAVE_NOTHING]
    by (simp add: stub_player_def OnCancel_def emitted_HAVE_NOTHING emitted_OnMediaStateChange
          OnMediaStateChange_ready_initialized)
qed

subsection \<open>Disposal\<close>

lemma Dispose_fields:
  "m_valid (Dispose ops s) = m_valid s \<and> eventSink (Dispose ops s) = eventSink s
   \<and> isInitialized (Dispose ops s) = isInitialized s \<and> delivered (Dispose ops s) = delivered s
   \<and> \<not> eventChannel (Dispose ops s)"
  by (simp add: Dispose_def)

lemma Dispose_eq:
  "Dispose ops s = (if isInitialized s then Pause ops s else s)\<lparr>eventChannel := False\<rparr>"
  by (simp add: Dispose_def Pause_def)

lemma callback_eventChannel:
  "is_callback a \<Longrightarrow>
   step ops a (s\<lparr>eventChannel := c\<rparr>) = (step ops a s)\<lparr>eventChannel := c\<rparr>"
  by (cases a) (simp_all add: event_defs Let_def split: prod.splits)

lemma callback_keeps_m_valid:
  "is_callback a \<Longrightarrow> m_valid (step ops a s) = m_valid s"
  by (cases a) (simp_all add: event_defs Let_def split: prod.splits)

text \<open>
  Claim C2, as the code has it. The claim has every engine callback that arrives after
  \<^verbatim>\<open>Dispose\<close> checked against the validity flag and dropped. \<^verbatim>\<open>Dispose\<close> leaves \<open>m_valid\<close>
  and the event sink as they are, and no callback reads \<open>m_valid\<close>: on a disposed
  session with its listener attached, \<^verbatim>\<open>OnPlaybackEnded\<close> still delivers "completed" and
  \<^verbatim>\<open>OnMediaInitialized\<close> still seeks the engine and initializes the session.
\<close>

theorem callback_after_dispose_counterexample:
  "m_valid (Dispose stub_ops stub_player)
   \<and> delivered (step stub_ops CallOnPlaybackEnded (Dispose stub_ops stub_player))
       = [EMap [(EString ''event'', EString ''completed'')]]
   \<and> stub_calls (engine (step stub_ops CallOnMediaInitialized (Dispose stub_ops stub_player)))
       = [Engine_SeekTo 0]
   \<and> isInitialized (step stub_ops CallOnMediaInitialized (Dispose stub_ops stub_player))
   \<and> step stub_ops CallOnPlaybackEnded (Dispose stub_ops stub_player)
       \<noteq> Dispose stub_ops stub_player"
  by (simp add: event_defs stub_ops_def stub_player_def)

text \<open>
  Claim C2, amended. \<^verbatim>\<open>Dispose\<close> pauses the engine if the session is initialized and
  releases the event channel; it changes neither the validity flag nor the listener. An
  engine callback arriving afterwards is not checked against the validity flag: it acts
  exactly as it would on the session not disposed (paused if initialized), and so hands
  the sink the same events. \<^verbatim>\<open>OnMediaError\<close> changes nothing in any state, and while the
  listener is detached no callback delivers an event.
\<close>

theorem callbacks_ignore_dispose:
  assumes "is_callback a"
  shows
  "m_valid (Dispose ops s) = m_valid s
   \<and> eventSink (Dispose ops s) = eventSink s
   \<and> step ops a (Dispose ops s)
       = (step ops a (if isInitialized s then Pause ops s else s))\<lparr>eventChannel := False\<rparr>
   \<and> emitted ops a (Dispose ops s)
       = emitted ops a (if isInitialized s then Pause ops s else s)
   \<and> m_valid (step ops a (Dispose ops s)) = m_valid s
   \<and> step ops (CallOnMediaError error hr) s = s
   \<and> (\<not> eventSink s \<longrightarrow> delivered (step ops a (Dispose ops s)) = delivered s)"
proof -
  have d: "step ops a (Dispose ops s)
       = (step ops a (if isInitialized s then Pause ops s else s))\<lparr>eventChannel := False\<rparr>"
    unfolding Dispose_eq by (rule callback_eventChannel [OF assms])
  have m: "emitted ops a (Dispose ops s)
       = emitted ops a (if isInitialized s then Pause ops s else s)"
    unfolding emitted_def d by (simp add: Dispose_eq Pause_def)
  have v: "m_valid (step ops a (Dispose ops s)) = m_valid s"
    using callback_keeps_m_valid [OF assms, of ops "Dispose ops s"]
    by (simp add: Dispose_fields)
  have e: "step ops (CallOnMediaError error hr) s = s"
    by (simp add: OnMediaError_def)
  have q: "\<not> eventSink s \<Longrightarrow> delivered (step ops a (Dispose ops s)) = delivered s"
    using step_detached [of "Dispose ops s" ops a] by (simp add: Dispose_fields)
  show ?thesis
    using q by (intro conjI impI d m v e) (simp_all add: Dispose_fields)
qed

theorem callbacks_ignore_dispose_witness:
  "is_callback CallOnPlaybackEnded
   \<and> m_valid (Dispose stub_ops stub_player)
   \<and> step stub_ops CallOnPlaybackEnded (Dispose stub_ops stub_player)
       = (step stub_ops CallOnPlaybackEnded stub_player)\<lparr>eventChannel := False\<rparr>
   \<and> emitted stub_ops CallOnPlaybackEnded (Dispose stub_ops stub_player)
       = [EMap [(EString ''event'', EString ''completed'')]]
   \<and> \<not> eventSink (OnCancel stub_player)
   \<and> delivered (step stub_ops CallOnPlaybackEnded (Dispose stub_ops (OnCancel stub_player))) = []"
proof -
  have c: "is_callback CallOnPlaybackEnded"
    by simp
  show ?thesis
    using callbacks_ignore_dispose [OF c, of stub_ops stub_player 1 2]
      callbacks_ignore_dispose [OF c, of stub_ops "OnCancel stub_player" 1 2]
    by (simp add: stub_player_def event_defs emitted_def)
qed

subsection \<open>Window geometry and the frame request\<close>

lemma float_of_int32_small: "\<bar>x\<bar> < 16777216 \<Longrightarrow> float_of_int32 x = x"
proof -
  assume small: "\<bar>x\<bar> < 16777216"
  have u: "float_ulp \<bar>x\<bar> = 1"
    using small by (subst float_ulp.simps) simp
  show ?thesis
    by (simp add: float_of_int32_def u Let_def sgn_mult_abs)
qed

lemma sint_diff_32:
  fixes a b :: "32 word"
  assumes "- 2147483648 \<le> sint a - sint b" and "sint a - sint b < 2147483648"
  shows "sint (a - b) = sint a - sint b"
  using assms by (simp add: sint_word_ariths signed_take_bit_int_eq_self)

lemma UpdateVideoSize_eq:
  "UpdateVideoSize ops r s =
   (let W = (case r of
               None \<Rightarrow> m_windowSize s
             | Some rect \<Rightarrow>
                 (float_of_int32 (sint (rect_right rect - rect_left rect)),
                  float_of_int32 (sint (rect_bottom rect - rect_top rect))))
    in s\<lparr>m_windowSize := W,
         engine := eOnWindowUpdate ops
           (uint32_of_float (if fst W \<noteq> 0 \<and> snd W \<noteq> 0 then fst W else 640))
           (uint32_of_float (if fst W \<noteq> 0 \<and> snd W \<noteq> 0 then snd W else 480))
           (engine s)\<rparr>)"
  by (cases r) (simp_all add: UpdateVideoSize_def Let_def)


lemma uint32_of_float_default [simp]:
  "uint32_of_float 640 = 640" "uint32_of_float 480 = 480"
  by (simp_all add: uint32_of_float_def)

lemma ObtainDescriptorCallback_eq:
  "eUpdateSurfaceDescriptor ops (ucast w) (ucast h) (m_descriptor s) (engine s) = (n, d, e) \<Longrightarrow>
   ObtainDescriptorCallback ops r w h s =
   UpdateVideoSize ops r
     (s\<lparr>m_descriptor := d, engine := e,
        framesAvailable := framesAvailable s @ replicate n (textureId s)\<rparr>)"
  by (simp add: ObtainDescriptorCallback_def)

text \<open>
  Claim C9, as the code has it. The claim keeps the prior window size when the rectangle
  is read but degenerate. \<^verbatim>\<open>UpdateVideoSize\<close> stores whatever rectangle it reads: with
  the stored size at 800 by 600, a rectangle of width 0 and height 600 overwrites it with
  (0, 600), and the engine is resized to the default 640 by 480, not to the prior size.
\<close>

theorem window_refresh_counterexample:
  "m_windowSize (UpdateVideoSize stub_ops
      (Some \<lparr>rect_left = 100, rect_top = 0, rect_right = 100, rect_bottom = 600\<rparr>)
      (stub_player\<lparr>m_windowSize := (800, 600)\<rparr>)) = (0, 600)
   \<and> stub_calls (engine (UpdateVideoSize stub_ops
      (Some \<lparr>rect_left = 100, rect_top = 0, rect_right = 100, rect_bottom = 600\<rparr>)
      (stub_player\<lparr>m_windowSize := (800, 600)\<rparr>))) = [Engine_OnWindowUpdate 640 480]"
  by (simp add: UpdateVideoSize_eq float_of_int32_small stub_ops_def stub_player_def)


text \<open>
  Claim C9, amended. When the window rectangle is read, \<open>m_windowSize\<close> becomes its width
  and height, right minus left and bottom minus top converted to \<^verbatim>\<open>float\<close> (the exact
  differences for sizes from 0 up to \<open>2^24\<close>), also when the rectangle is degenerate;
  when the read fails, \<open>m_windowSize\<close> keeps its prior value. The engine is resized to
  \<open>m_windowSize\<close> if both its dimensions are non-zero and to 640 by 480 otherwise. Apart
  from \<open>m_windowSize\<close> and this call to the engine, the refresh changes nothing in the
  session.
\<close>

theorem window_refresh:
  "UpdateVideoSize ops r s =
     (let W = (case r of
                 None \<Rightarrow> m_windowSize s
               | Some rect \<Rightarrow>
                   (float_of_int32 (sint (rect_right rect - rect_left rect)),
                    float_of_int32 (sint (rect_bottom rect - rect_top rect))))
      in s\<lparr>m_windowSize := W,
           engine := eOnWindowUpdate ops
             (uint32_of_float (if fst W \<noteq> 0 \<and> snd W \<noteq> 0 then fst W else 640))
             (uint32_of_float (if fst W \<noteq> 0 \<and> snd W \<noteq> 0 then snd W else 480))
             (engine s)\<rparr>)
   \<and> (r = None \<longrightarrow> m_windowSize (UpdateVideoSize ops r s) = m_windowSize s)
   \<and> (r = Some rect
        \<and> 0 \<le> sint (rect_right rect) - sint (rect_left rect)
        \<and> sint (rect_right rect) - sint (rect_left rect) < 16777216
        \<and> 0 \<le> sint (rect_bottom rect) - sint (rect_top rect)
        \<and> sint (rect_bottom rect) - sint (rect_top rect) < 16777216 \<longrightarrow>
        m_windowSize (UpdateVideoSize ops r s) =
          (sint (rect_right rect) - sint (rect_left rect),
           sint (rect_bottom rect) - sint (rect_top rect)))"
proof -
  have exact: "float_of_int32 (sint (a - b)) = sint a - sint b"
    if "0 \<le> sint a - sint b" and "sint a - sint b < 16777216" for a b :: "32 word"
  proof -
    have "sint (a - b) = sint a - sint b"
      using that by (intro sint_diff_32) simp_all
    then show ?thesis
      using that by (simp add: float_of_int32_small)
  qed
  show ?thesis
    by (intro conjI impI UpdateVideoSize_eq) (auto simp add: UpdateVideoSize_eq Let_def exact)
qed

theorem window_refresh_witness:
  "m_windowSize (UpdateVideoSize stub_ops
      (Some \<lparr>rect_left = 10, rect_top = 20, rect_right = 810, rect_bottom = 620\<rparr>) stub_player)
     = (800, 600)
   \<and> stub_calls (engine (UpdateVideoSize stub_ops
      (Some \<lparr>rect_left = 10, rect_top = 20, rect_right = 810, rect_bottom = 620\<rparr>) stub_player))
     = [Engine_OnWindowUpdate 800 600]
   \<and> m_windowSize (UpdateVideoSize stub_ops None (stub_player\<lparr>m_windowSize := (800, 600)\<rparr>))
     = (800, 600)"
  using window_refresh [of stub_ops
      "Some \<lparr>rect_left = 10, rect_top = 20, rect_right = 810, rect_bottom = 620\<rparr>" stub_player
      "\<lparr>rect_left = 10, rect_top = 20, rect_right = 810, rect_bottom = 620\<rparr>"]
    window_refresh [of stub_ops None "stub_player\<lparr>m_windowSize := (800, 600)\<rparr>"]
  by (simp add: stub_ops_def stub_player_def float_of_int32_small uint32_of_float_def)

text \<open>
  Claim C5, as the code has it. The claim has the engine resized to the default 640 by
  480 whenever the window geometry is unavailable. After a first frame request that read
  a window of 800 by 600, a second request for (1920, 1080) with the geometry unavailable
  resizes the engine to the stored 800 by 600.
\<close>

theorem frame_request_resize_counterexample:
  "stub_calls (engine (run stub_ops
      [CallObtainDescriptor
         (Some \<lparr>rect_left = 10, rect_top = 20, rect_right = 810, rect_bottom = 620\<rparr>) 1920 1080,
       CallObtainDescriptor None 1920 1080] stub_player))
   = [Engine_UpdateSurfaceDescriptor 1920 1080, Engine_OnWindowUpdate 800 600,
      Engine_UpdateSurfaceDescriptor 1920 1080, Engine_OnWindowUpdate 800 600]"
  by (simp add: ObtainDescriptorCallback_def UpdateVideoSize_eq float_of_int32_small
        uint32_of_float_def stub_ops_def stub_player_def)

text \<open>
  Claim C5, amended. A frame request first has the engine update the surface descriptor
  for the requested width and height cast to 32 bits (the requested values themselves below
  \<open>2^32\<close>); what the engine writes becomes \<open>m_descriptor\<close>, and the texture is marked
  available once per invocation of the callback. Then the engine is resized to the display
  size, which does not depend on the request: the window size just read, or the stored one
  when the read fails, and 640 by 480 in place of a size with a zero dimension. So with the
  geometry unavailable the resize gets the stored size when both its dimensions are
  non-zero, and the default 640 by 480 otherwise.
\<close>

theorem frame_request_resize:
  assumes "eUpdateSurfaceDescriptor ops (ucast w) (ucast h) (m_descriptor s) (engine s) = (n, d, e)"
  shows
  "m_descriptor (ObtainDescriptorCallback ops r w h s) = d
   \<and> framesAvailable (ObtainDescriptorCallback ops r w h s)
       = framesAvailable s @ replicate n (textureId s)
   \<and> m_windowSize (ObtainDescriptorCallback ops r w h s)
       = (case r of
            None \<Rightarrow> m_windowSize s
          | Some rect \<Rightarrow>
              (float_of_int32 (sint (rect_right rect - rect_left rect)),
               float_of_int32 (sint (rect_bottom rect - rect_top rect))))
   \<and> engine (ObtainDescriptorCallback ops r w h s)
       = (let W = m_windowSize (ObtainDescriptorCallback ops r w h s)
          in eOnWindowUpdate ops
               (uint32_of_float (if fst W \<noteq> 0 \<and> snd W \<noteq> 0 then fst W else 640))
               (uint32_of_float (if fst W \<noteq> 0 \<and> snd W \<noteq> 0 then snd W else 480)) e)
   \<and> (r = None \<and> fst (m_windowSize s) \<noteq> 0 \<and> snd (m_windowSize s) \<noteq> 0 \<longrightarrow>
        engine (ObtainDescriptorCallback ops r w h s)
          = eOnWindowUpdate ops (uint32_of_float (fst (m_windowSize s)))
              (uint32_of_float (snd (m_windowSize s))) e)
   \<and> (r = None \<and> (fst (m_windowSize s) = 0 \<or> snd (m_windowSize s) = 0) \<longrightarrow>
        engine (ObtainDescriptorCallback ops r w h s) = eOnWindowUpdate ops 640 480 e)
   \<and> unat (ucast w :: 32 word) = unat w mod 4294967296
   \<and> unat (ucast h :: 32 word) = unat h mod 4294967296"
proof -
  have c: "unat (ucast x :: 32 word) = unat x mod 4294967296" for x :: "64 word"
    by (simp add: unsigned_ucast_eq take_bit_eq_mod)
  show ?thesis
    unfolding ObtainDescriptorCallback_eq [OF assms] UpdateVideoSize_eq
    by (cases r) (simp_all add: Let_def c)
qed

theorem frame_request_resize_witness:
  "eUpdateSurfaceDescriptor stub_ops (ucast (1920 :: 64 word)) (ucast (1080 :: 64 word))
      (m_descriptor stub_player) (engine stub_player)
     = (1, (1920, 1080), \<lparr>stub_time = 0, stub_calls = [Engine_UpdateSurfaceDescriptor 1920 1080]\<rparr>)
   \<and> m_descriptor (ObtainDescriptorCallback stub_ops None 1920 1080 stub_player) = (1920, 1080)
   \<and> framesAvailable (ObtainDescriptorCallback stub_ops None 1920 1080 stub_player) = [7]
   \<and> stub_calls (engine (ObtainDescriptorCallback stub_ops None 1920 1080 stub_player))
     = [Engine_UpdateSurfaceDescriptor 1920 1080, Engine_OnWindowUpdate 640 480]
   \<and> stub_calls (engine (ObtainDescriptorCallback stub_ops None 1920 1080
        (stub_player\<lparr>m_windowSize := (800, 600)\<rparr>)))
     = [Engine_UpdateSurfaceDescriptor 1920 1080, Engine_OnWindowUpdate 800 600]"
proof -
  have u: "eUpdateSurfaceDescriptor stub_ops (ucast (1920 :: 64 word)) (ucast (1080 :: 64 word))
      (m_descriptor stub_player) (engine stub_player)
     = (1, (1920, 1080), \<lparr>stub_time = 0, stub_calls = [Engine_UpdateSurfaceDescriptor 1920 1080]\<rparr>)"
    by (simp add: stub_ops_def stub_player_def)
  have v: "eUpdateSurfaceDescriptor stub_ops (ucast (1920 :: 64 word)) (ucast (1080 :: 64 word))
      (m_descriptor (stub_player\<lparr>m_windowSize := (800, 600)\<rparr>))
      (engine (stub_player\<lparr>m_windowSize := (800, 600)\<rparr>))
     = (1, (1920, 1080), \<lparr>stub_time = 0, stub_calls = [Engine_UpdateSurfaceDescriptor 1920 1080]\<rparr>)"
    by (simp add: stub_ops_def stub_player_def)
  show ?thesis
    using u frame_request_resize [OF u, of None] frame_request_resize [OF v, of None]
    by (simp add: stub_ops_def stub_player_def uint32_of_float_def)
qed

end
